theory Spec2Isabelle
  imports Complex_Main "HOL-Library.Sublist" "HOL-Library.Char_ord" "HOL-Library.List_Lexorder"
    "HOL-Library.Product_Lexorder" "HOL-Library.Multiset"
begin

section \<open>Text: characters and the normalizer (heuristics.py)\<close>

text \<open>
  A Python \<open>str\<close> is a sequence of code points. The model takes the code points below
  256, one \<^typ>\<open>char\<close> each, so \<^const>\<open>length\<close> counts what \<open>len\<close> counts. On that range
  the classes of \<open>str.isspace\<close>/\<open>\s\<close>, \<open>\w\<close>, \<open>\d\<close> and the map \<open>str.lower\<close> are the
  finite tables below.
\<close>

definition py_isspace :: "char \<Rightarrow> bool" where
  "py_isspace c =
     (let n = (of_char c :: nat)
      in (9 \<le> n \<and> n \<le> 13) \<or> (28 \<le> n \<and> n \<le> 32) \<or> n = 133 \<or> n = 160)"

definition re_digit :: "char \<Rightarrow> bool" where
  "re_digit c = (let n = (of_char c :: nat) in 48 \<le> n \<and> n \<le> 57)"

definition re_word :: "char \<Rightarrow> bool" where
  "re_word c =
     (let n = (of_char c :: nat)
      in (48 \<le> n \<and> n \<le> 57) \<or> (65 \<le> n \<and> n \<le> 90) \<or> n = 95 \<or> (97 \<le> n \<and> n \<le> 122)
         \<or> n = 170 \<or> n = 178 \<or> n = 179 \<or> n = 181 \<or> n = 185 \<or> n = 186
         \<or> (188 \<le> n \<and> n \<le> 190) \<or> (192 \<le> n \<and> n \<le> 214)
         \<or> (216 \<le> n \<and> n \<le> 246) \<or> (248 \<le> n \<and> n \<le> 255))"

definition py_lower_chr :: "char \<Rightarrow> char" where
  "py_lower_chr c =
     (let n = (of_char c :: nat)
      in if (65 \<le> n \<and> n \<le> 90) \<or> (192 \<le> n \<and> n \<le> 222 \<and> n \<noteq> 215)
         then char_of (n + 32) else c)"

definition py_lower :: "string \<Rightarrow> string" where
  "py_lower s = map py_lower_chr s"

definition py_strip :: "string \<Rightarrow> string" where
  "py_strip s = rev (dropWhile py_isspace (rev (dropWhile py_isspace s)))"

text \<open>\<open>re.sub(r"\s+", " ", text)\<close>: every maximal run of whitespace becomes one space.\<close>

function collapse_ws :: "string \<Rightarrow> string" where
  "collapse_ws [] = []"
| "collapse_ws (c # cs) =
     (if py_isspace c then CHR '' '' # collapse_ws (dropWhile py_isspace cs)
      else c # collapse_ws cs)"
  by pat_completeness auto
termination
  by (relation "measure length") (auto simp: le_imp_less_Suc length_dropWhile_le)

text \<open>\<open>re.sub(r"[^\w\s\-]", "", text)\<close>: drop what is neither word, space nor hyphen.\<close>

definition strip_punct :: "string \<Rightarrow> string" where
  "strip_punct s = filter (\<lambda>c. re_word c \<or> py_isspace c \<or> c = CHR ''-'') s"

definition normalize_text :: "string \<Rightarrow> string" where
  "normalize_text text = py_strip (strip_punct (collapse_ws (py_lower text)))"


text \<open>\<open>re.sub(r"\D", "", text)\<close>.\<close>

definition extract_digits :: "string \<Rightarrow> string" where
  "extract_digits text = filter re_digit text"

text \<open>The operator \<open>needle in haystack\<close> on strings: a contiguous occurrence.\<close>

fun str_in :: "string \<Rightarrow> string \<Rightarrow> bool" where
  "str_in xs [] = (xs = [])"
| "str_in xs (y # ys) = (prefix xs (y # ys) \<or> str_in xs ys)"

text \<open>
  Slicing \<open>xs[:n]\<close>: a negative bound counts from the end, and no bound is out of range.
\<close>

definition py_take :: "int \<Rightarrow> 'a list \<Rightarrow> 'a list" where
  "py_take n xs = (if 0 \<le> n then take (nat n) xs else take (length xs - nat (- n)) xs)"

text \<open>\<open>sep.join(parts)\<close>.\<close>

fun py_join :: "string \<Rightarrow> string list \<Rightarrow> string" where
  "py_join sep [] = []"
| "py_join sep [x] = x"
| "py_join sep (x # y # ys) = x @ sep @ py_join sep (y # ys)"

text \<open>
  \<open>re.split\<close> on a one-character class: the pieces between the separators, empty
  pieces included.
\<close>

fun re_split :: "(char \<Rightarrow> bool) \<Rightarrow> string \<Rightarrow> string list" where
  "re_split sep [] = [[]]"
| "re_split sep (c # cs) =
     (if sep c then [] # re_split sep cs
      else (case re_split sep cs of
              [] \<Rightarrow> [[c]]
            | piece # pieces \<Rightarrow> (c # piece) # pieces))"

text \<open>
  The regular expressions of the evidence check are sequences of one-character classes
  (a literal, \<open>\d\<close>, or \<open>[-/]\<close>), so a pattern is the list of its classes, each given by
  the characters it admits. \<open>re.match\<close> tries the start of the text, \<open>re.search\<close> every
  position.
\<close>

type_synonym pattern = "char list list"

fun re_match :: "pattern \<Rightarrow> string \<Rightarrow> bool" where
  "re_match [] s = True"
| "re_match (cl # p) [] = False"
| "re_match (cl # p) (c # s) = (c \<in> set cl \<and> re_match p s)"

fun re_search :: "pattern \<Rightarrow> string \<Rightarrow> bool" where
  "re_search p [] = re_match p []"
| "re_search p (c # s) = (re_match p (c # s) \<or> re_search p s)"

definition lit :: "string \<Rightarrow> pattern" where
  "lit s = map (\<lambda>c. [c]) s"

definition digit_class :: "char list" where
  "digit_class = ''0123456789''"

definition sep_class :: "char list" where
  "sep_class = ''-/''"

text \<open>
  \<open>int(s)\<close> on a string of decimal digits, and \<open>str(n)\<close> as an f-string renders it:
  no leading zero.
\<close>

definition digit_val :: "char \<Rightarrow> nat" where
  "digit_val c = of_char c - 48"

definition py_int :: "string \<Rightarrow> nat" where
  "py_int s = foldl (\<lambda>n c. 10 * n + digit_val c) 0 s"

definition digit_chr :: "nat \<Rightarrow> char" where
  "digit_chr d = char_of (48 + d)"

function py_str :: "nat \<Rightarrow> string" where
  "py_str n = (if n < 10 then [digit_chr n] else py_str (n div 10) @ [digit_chr (n mod 10)])"
  by pat_completeness auto
termination
  by (relation "measure id") auto

declare py_str.simps [simp del]

text \<open>\<open>s.lstrip("0")\<close>.\<close>

definition lstrip_zeros :: "string \<Rightarrow> string" where
  "lstrip_zeros s = dropWhile (\<lambda>c. c = CHR ''0'') s"

section \<open>Data model (models.py, excerpts.py)\<close>

datatype field_type = String | Date | Phone | String_or_list

datatype extraction_method = Heuristic | Llm

record field_spec =
  key :: string
  label :: "string option"
  type :: field_type

record layout_page_text =
  page :: int
  full_text :: string

record layout_doc =
  doc_id :: string
  pages :: "layout_page_text list"

record routing_entry =
  rt_field :: string
  rt_doc_ids :: "string list"

record evidence =
  ev_doc_id :: string
  ev_page :: int
  quoted_text :: string

text \<open>Scores are floats in the source; the model takes them as real numbers.\<close>

record candidate_scores =
  anchor_match :: real
  validator :: real
  doc_relevance :: real
  cross_doc_agreement :: real
  contradiction_penalty :: real

record candidate =
  field :: string
  raw_value :: string
  normalized_value :: string
  evidence :: "evidence list"
  from_method :: extraction_method
  validators :: "string list"
  rejected_reasons :: "string list"
  scores :: candidate_scores

record doc_excerpt =
  ex_doc_id :: string
  ex_page :: int
  ex_text :: string

record run_options =
  max_llm_tokens :: int
  max_fields :: int



text \<open>
  The pydantic validators run when an object is built; a failed validator raises, and
  no object exists. The constructors below return the exception as a value.
\<close>

datatype exn =
  ValidationError string
  | ValueError string
  | LLMInvalidJSONError string string
  | RuntimeError string



definition validate_score_range :: "real \<Rightarrow> bool" where
  "validate_score_range v = (\<not> (v < 0 \<or> v > 1))"

definition CandidateScores_init ::
  "real \<Rightarrow> real \<Rightarrow> real \<Rightarrow> real \<Rightarrow> real \<Rightarrow> exn + candidate_scores" where
  "CandidateScores_init a v d x p =
     (if validate_score_range a \<and> validate_score_range v \<and> validate_score_range d
         \<and> validate_score_range x \<and> validate_score_range p
      then Inr \<lparr>anchor_match = a, validator = v, doc_relevance = d,
                cross_doc_agreement = x, contradiction_penalty = p\<rparr>
      else Inl (ValidationError ''score must be in [0, 1]''))"


section \<open>Evidence verifier (extract_candidates.py)\<close>

definition normalize_for_evidence_check :: "string \<Rightarrow> string" where
  "normalize_for_evidence_check text = normalize_text text"

fun evidence_supports_string :: "string \<Rightarrow> string list \<Rightarrow> bool" where
  "evidence_supports_string nv [] = False"
| "evidence_supports_string nv (ev_text # rest) =
     (if str_in (normalize_for_evidence_check nv) (normalize_for_evidence_check ev_text)
      then True else evidence_supports_string nv rest)"

definition month_names :: "string \<Rightarrow> string list" where
  "month_names m =
     (if m = ''01'' then [''jan'', ''january'']
      else if m = ''02'' then [''feb'', ''february'']
      else if m = ''03'' then [''mar'', ''march'']
      else if m = ''04'' then [''apr'', ''april'']
      else if m = ''05'' then [''may'']
      else if m = ''06'' then [''jun'', ''june'']
      else if m = ''07'' then [''jul'', ''july'']
      else if m = ''08'' then [''aug'', ''august'']
      else if m = ''09'' then [''sep'', ''september'']
      else if m = ''10'' then [''oct'', ''october'']
      else if m = ''11'' then [''nov'', ''november'']
      else if m = ''12'' then [''dec'', ''december'']
      else [])"

text \<open>
  \<open>re.match(r"(\d{4})-(\d{2})-(\d{2})", normalized_value)\<close> and its three groups.
\<close>

definition date_pattern :: pattern where
  "date_pattern =
     replicate 4 digit_class @ lit ''-'' @ replicate 2 digit_class @ lit ''-''
       @ replicate 2 digit_class"

definition date_groups :: "string \<Rightarrow> (string \<times> string \<times> string) option" where
  "date_groups nv =
     (if re_match date_pattern nv
      then Some (take 4 nv, take 2 (drop 5 nv), take 2 (drop 8 nv))
      else None)"

fun date_loop :: "string \<Rightarrow> string \<Rightarrow> string \<Rightarrow> string list \<Rightarrow> bool" where
  "date_loop year month day [] = False"
| "date_loop year month day (ev_text # rest) =
     (if re_search (lit year @ [sep_class] @ lit month @ [sep_class] @ lit day) ev_text
      then True
      else if re_search (lit year @ [sep_class] @ lit (py_str (py_int month)) @ [sep_class]
                           @ lit (py_str (py_int day))) ev_text
      then True
      else if re_search (lit month @ [sep_class] @ lit day @ [sep_class] @ lit year) ev_text
      then True
      else if re_search (lit (py_str (py_int month)) @ [sep_class]
                           @ lit (py_str (py_int day)) @ [sep_class] @ lit year) ev_text
      then True
      else if str_in year ev_text \<and> str_in (lstrip_zeros day) ev_text
              \<and> list_ex (\<lambda>m_str. str_in m_str (py_lower ev_text)) (month_names month)
      then True
      else date_loop year month day rest)"

definition evidence_supports_date :: "string \<Rightarrow> string list \<Rightarrow> bool" where
  "evidence_supports_date nv evidence_texts =
     (case date_groups nv of
        None \<Rightarrow> False
      | Some (year, month, day) \<Rightarrow> date_loop year month day evidence_texts)"

fun phone_loop :: "string \<Rightarrow> string list \<Rightarrow> bool" where
  "phone_loop norm_digits [] = False"
| "phone_loop norm_digits (ev_text # rest) =
     (let ev_digits = extract_digits ev_text
      in if str_in norm_digits ev_digits then True
         else if prefix ''1'' norm_digits \<and> str_in (drop 1 norm_digits) ev_digits then True
         else if length norm_digits = 11 \<and> prefix ''1'' norm_digits
                 \<and> str_in (drop 1 norm_digits) ev_digits then True
         else phone_loop norm_digits rest)"

definition evidence_supports_phone :: "string \<Rightarrow> string list \<Rightarrow> bool" where
  "evidence_supports_phone nv evidence_texts =
     (let norm_digits = extract_digits nv
      in if length norm_digits < 10 then False else phone_loop norm_digits evidence_texts)"

fun items_loop :: "string \<Rightarrow> string list \<Rightarrow> bool" where
  "items_loop norm_evidence [] = True"
| "items_loop norm_evidence (item # rest) =
     (let norm_item = normalize_for_evidence_check item
      in if norm_item \<noteq> [] \<and> \<not> str_in norm_item norm_evidence then False
         else items_loop norm_evidence rest)"

definition evidence_supports_list :: "string \<Rightarrow> string list \<Rightarrow> bool" where
  "evidence_supports_list nv evidence_texts =
     (if CHR '','' \<in> set nv \<or> CHR '';'' \<in> set nv
      then (let items = map py_strip
                          (filter (\<lambda>item. py_strip item \<noteq> [])
                             (re_split (\<lambda>c. c = CHR '','' \<or> c = CHR '';'') nv))
            in if items = [] then False
               else items_loop (normalize_for_evidence_check (py_join '' '' evidence_texts))
                      items)
      else evidence_supports_string nv evidence_texts)"

text \<open>
  The loop over \<open>candidate.evidence\<close> that collects the quoted texts and returns
  \<open>False\<close> at the first item with a falsy \<open>doc_id\<close>, \<open>page\<close> or \<open>quoted_text\<close>.
\<close>

fun collect_evidence_texts :: "evidence list \<Rightarrow> string list option" where
  "collect_evidence_texts [] = Some []"
| "collect_evidence_texts (ev # rest) =
     (if ev_doc_id ev = [] \<or> ev_page ev = 0 \<or> quoted_text ev = [] then None
      else map_option ((#) (quoted_text ev)) (collect_evidence_texts rest))"

definition evidence_supports_value :: "field_spec \<Rightarrow> candidate \<Rightarrow> bool" where
  "evidence_supports_value f c =
     (if evidence c = [] then False
      else case collect_evidence_texts (evidence c) of
             None \<Rightarrow> False
           | Some evidence_texts \<Rightarrow>
               if evidence_texts = [] then False
               else (case type f of
                       Date \<Rightarrow> evidence_supports_date (normalized_value c) evidence_texts
                     | Phone \<Rightarrow> evidence_supports_phone (normalized_value c) evidence_texts
                     | String_or_list \<Rightarrow>
                         evidence_supports_list (normalized_value c) evidence_texts
                     | String \<Rightarrow>
                         evidence_supports_string (normalized_value c) evidence_texts))"

definition AUTOFILL_THRESHOLD :: real where
  "AUTOFILL_THRESHOLD = 0.75"

definition compute_provisional_confidence :: "candidate \<Rightarrow> real" where
  "compute_provisional_confidence c = 0.45 * anchor_match (scores c)"


section \<open>Excerpt builder (excerpts.py)\<close>

text \<open>\<open>FIELD_ALIASES.get(field.key, [])\<close>, the table of routing.py.\<close>

definition FIELD_ALIASES :: "string \<Rightarrow> string list" where
  "FIELD_ALIASES k =
     (if k = ''full_name'' then [''full_name'', ''name'', ''patient_name'']
      else if k = ''dob'' then [''dob'', ''date_of_birth'', ''birthdate'']
      else if k = ''phone'' then [''phone'', ''mobile'', ''telephone'']
      else if k = ''address'' then [''address'', ''street'']
      else if k = ''insurance_member_id''
        then [''insurance_member_id'', ''member_id'', ''policy'', ''insurance_id'']
      else if k = ''allergies'' then [''allergies'', ''allergy'']
      else if k = ''medications'' then [''medications'', ''meds'']
      else [])"

text \<open>The keyword set, as the list of its members; it is only ever searched.\<close>

definition get_field_keywords :: "field_spec \<Rightarrow> string list" where
  "get_field_keywords f =
     [py_lower (key f)]
       @ (case label f of
            None \<Rightarrow> []
          | Some l \<Rightarrow> if l = [] then [] else [py_lower l])
       @ map py_lower (FIELD_ALIASES (key f))"

definition page_contains_keyword :: "string \<Rightarrow> string list \<Rightarrow> bool" where
  "page_contains_keyword page_text keywords =
     list_ex (\<lambda>kw. str_in kw (py_lower page_text)) keywords"

definition select_pages :: "string list \<Rightarrow> int \<Rightarrow> layout_doc \<Rightarrow> layout_page_text list" where
  "select_pages keywords max_pages_per_doc doc =
     (let sorted_pages = sort_key page (pages doc);
          matching_pages = filter (\<lambda>p. page_contains_keyword (full_text p) keywords) sorted_pages;
          matching_pages' =
            (if matching_pages = []
             then (case sorted_pages of [] \<Rightarrow> [] | first # _ \<Rightarrow> [first])
             else matching_pages)
      in py_take max_pages_per_doc matching_pages')"

text \<open>
  The inner loop over the selected pages of one document. Its state is the excerpt
  list, \<open>doc_chars_used\<close> and \<open>total_chars\<close>; both \<open>break\<close>s end it.
\<close>

fun page_loop ::
  "int \<Rightarrow> int \<Rightarrow> string \<Rightarrow> layout_page_text list \<Rightarrow> int \<Rightarrow> int \<Rightarrow> doc_excerpt list
     \<Rightarrow> doc_excerpt list \<times> int" where
  "page_loop max_total_chars max_chars_per_doc d [] doc_chars_used total_chars excerpts =
     (excerpts, total_chars)"
| "page_loop max_total_chars max_chars_per_doc d (p # ps) doc_chars_used total_chars excerpts =
     (if total_chars \<ge> max_total_chars then (excerpts, total_chars)
      else if doc_chars_used \<ge> max_chars_per_doc then (excerpts, total_chars)
      else
        (let remaining_doc_chars = max_chars_per_doc - doc_chars_used;
             remaining_total_chars = max_total_chars - total_chars;
             max_for_this_page = min remaining_doc_chars remaining_total_chars;
             text = py_take max_for_this_page (full_text p)
         in if text \<noteq> []
            then page_loop max_total_chars max_chars_per_doc d ps
                   (doc_chars_used + int (length text)) (total_chars + int (length text))
                   (excerpts @ [\<lparr>ex_doc_id = d, ex_page = page p, ex_text = text\<rparr>])
            else page_loop max_total_chars max_chars_per_doc d ps
                   doc_chars_used total_chars excerpts))"

fun doc_loop ::
  "string list \<Rightarrow> int \<Rightarrow> int \<Rightarrow> int \<Rightarrow> layout_doc list \<Rightarrow> int \<Rightarrow> doc_excerpt list
     \<Rightarrow> doc_excerpt list" where
  "doc_loop keywords max_total_chars max_chars_per_doc max_pages_per_doc [] total_chars excerpts =
     excerpts"
| "doc_loop keywords max_total_chars max_chars_per_doc max_pages_per_doc (doc # rest)
     total_chars excerpts =
     (if total_chars \<ge> max_total_chars then excerpts
      else
        (case page_loop max_total_chars max_chars_per_doc (doc_id doc)
                (select_pages keywords max_pages_per_doc doc) 0 total_chars excerpts of
           (excerpts', total_chars') \<Rightarrow>
             doc_loop keywords max_total_chars max_chars_per_doc max_pages_per_doc rest
               total_chars' excerpts'))"

definition build_excerpts_for_field ::
  "field_spec \<Rightarrow> layout_doc list \<Rightarrow> int \<Rightarrow> int \<Rightarrow> int \<Rightarrow> doc_excerpt list" where
  "build_excerpts_for_field f routed_docs max_total_chars max_chars_per_doc max_pages_per_doc =
     doc_loop (get_field_keywords f) max_total_chars max_chars_per_doc max_pages_per_doc
       routed_docs 0 []"

definition DEFAULT_MAX_TOTAL_CHARS :: int where
  "DEFAULT_MAX_TOTAL_CHARS = 8000"

definition DEFAULT_MAX_CHARS_PER_DOC :: int where
  "DEFAULT_MAX_CHARS_PER_DOC = 4000"

definition DEFAULT_MAX_PAGES_PER_DOC :: int where
  "DEFAULT_MAX_PAGES_PER_DOC = 3"


section \<open>Generator client (llm_client.py)\<close>









section \<open>Orchestrator (extract_candidates.py)\<close>

text \<open>
  \<open>heuristic_candidates_for_field\<close>: the dispatch table and the loop over the routed
  documents. The seven regular-expression extractors are the table's entries.
\<close>

type_synonym extractor = "field_spec \<Rightarrow> layout_doc \<Rightarrow> candidate list"

definition heuristic_candidates_for_field ::
  "(string \<rightharpoonup> extractor) \<Rightarrow> field_spec \<Rightarrow> layout_doc list \<Rightarrow> candidate list" where
  "heuristic_candidates_for_field extractors f routed_docs =
     (case extractors (key f) of
        None \<Rightarrow> []
      | Some extractor \<Rightarrow> concat (map (extractor f) routed_docs))"

text \<open>
  \<open>_get_routed_docs\<close>: the first routing entry of the field; the dict comprehension
  keeps the last layout document of each id.
\<close>

definition get_routed_docs ::
  "string \<Rightarrow> routing_entry list \<Rightarrow> layout_doc list \<Rightarrow> layout_doc list" where
  "get_routed_docs field_key routing layout =
     (case find (\<lambda>r. rt_field r = field_key) routing of
        None \<Rightarrow> []
      | Some entry \<Rightarrow>
          if rt_doc_ids entry = [] then []
          else (let layout_map = map_of (rev (map (\<lambda>doc. (doc_id doc, doc)) layout))
                in concat (map (\<lambda>d. case layout_map d of None \<Rightarrow> [] | Some doc \<Rightarrow> [doc])
                                (rt_doc_ids entry))))"

definition method_order :: "extraction_method \<Rightarrow> nat" where
  "method_order m = (case m of Heuristic \<Rightarrow> 0 | Llm \<Rightarrow> 1)"

definition sort_candidates :: "candidate list \<Rightarrow> candidate list" where
  "sort_candidates candidates =
     sort_key (\<lambda>c. (field c, method_order (from_method c), normalized_value c)) candidates"

definition mark_unsupported :: "candidate \<Rightarrow> candidate" where
  "mark_unsupported c =
     c\<lparr>rejected_reasons := rejected_reasons c @ [''unsupported_by_evidence'']\<rparr>"

text \<open>
  The evidence check of the heuristic pass; the state is \<open>accepted_heuristic\<close> and
  \<open>field_candidates\<close>. That of the generator pass has \<open>field_candidates\<close> alone.
\<close>

fun check_heuristic ::
  "field_spec \<Rightarrow> candidate list \<Rightarrow> candidate list \<Rightarrow> candidate list
     \<Rightarrow> candidate list \<times> candidate list" where
  "check_heuristic f [] accepted_heuristic field_candidates =
     (accepted_heuristic, field_candidates)"
| "check_heuristic f (c # cs) accepted_heuristic field_candidates =
     (if \<not> evidence_supports_value f c
      then check_heuristic f cs accepted_heuristic (field_candidates @ [mark_unsupported c])
      else check_heuristic f cs (accepted_heuristic @ [c]) (field_candidates @ [c]))"

fun check_llm :: "field_spec \<Rightarrow> candidate list \<Rightarrow> candidate list \<Rightarrow> candidate list" where
  "check_llm f [] field_candidates = field_candidates"
| "check_llm f (c # cs) field_candidates =
     (if \<not> evidence_supports_value f c
      then check_llm f cs (field_candidates @ [mark_unsupported c])
      else check_llm f cs (field_candidates @ [c]))"

text \<open>
  \<open>max\<close> over a sequence with first item \<open>x\<close>: the first largest item. The
  orchestrator calls it on a non-empty list only.
\<close>

definition py_max :: "real \<Rightarrow> real list \<Rightarrow> real" where
  "py_max x xs = foldl (\<lambda>m y. if y > m then y else m) x xs"

definition should_call_llm :: "candidate list \<Rightarrow> bool" where
  "should_call_llm accepted_heuristic =
     (case accepted_heuristic of
        [] \<Rightarrow> True
      | c # cs \<Rightarrow>
          (let best_confidence =
                 py_max (compute_provisional_confidence c) (map compute_provisional_confidence cs)
           in if best_confidence < AUTOFILL_THRESHOLD then True else False))"

text \<open>
  Trace events, without the clock: the step, the status and the error object. The run
  state holds what the loop over the fields updates: the client, the trace,
  \<open>all_candidates\<close>, \<open>field_stats\<close>, and a log of the calls made to the client.
\<close>

record trace_event =
  step :: string
  status :: string
  error :: "(string \<times> string) option"

record field_stat =
  heuristic_count :: nat
  llm_used :: bool
  accepted_count :: nat
  rejected_count :: nat

record 's run_state =
  client :: 's
  trace :: "trace_event list"
  all_candidates :: "candidate list"
  field_stats :: "string \<rightharpoonup> field_stat"
  llm_calls :: "(field_spec \<times> doc_excerpt list) list"

type_synonym 's llm_client =
  "field_spec \<Rightarrow> doc_excerpt list \<Rightarrow> run_options \<Rightarrow> 's \<Rightarrow> (exn + candidate list) \<times> 's"


fun exn_str :: "exn \<Rightarrow> string" where
  "exn_str (ValidationError m) = m"
| "exn_str (ValueError m) = m"
| "exn_str (LLMInvalidJSONError k m) = ''Invalid JSON from LLM for field '' @ k @ '': '' @ m"
| "exn_str (RuntimeError m) = m"

definition heuristic_event :: "field_spec \<Rightarrow> trace_event" where
  "heuristic_event f =
     \<lparr>step = ''field:'' @ key f @ '':heuristic'', status = ''ok'', error = None\<rparr>"

definition llm_event :: "field_spec \<Rightarrow> (string \<times> string) option \<Rightarrow> trace_event" where
  "llm_event f llm_error =
     \<lparr>step = ''field:'' @ key f @ '':llm'',
      status = (if llm_error = None then ''ok'' else ''error''), error = llm_error\<rparr>"

text \<open>
  The \<open>try\<close> block of the generator pass. It returns the field's candidates, the
  \<open>llm_error\<close> of the \<open>except LLMInvalidJSONError\<close> clause, an exception that the
  clause does not catch, and the state.
\<close>

definition llm_pass ::
  "'s llm_client \<Rightarrow> run_options \<Rightarrow> field_spec \<Rightarrow> layout_doc list \<Rightarrow> candidate list
     \<Rightarrow> 's run_state
     \<Rightarrow> candidate list \<times> (string \<times> string) option \<times> exn option \<times> 's run_state" where
  "llm_pass llm ro f routed_docs field_candidates st =
     (let excerpts = build_excerpts_for_field f routed_docs DEFAULT_MAX_TOTAL_CHARS
                       DEFAULT_MAX_CHARS_PER_DOC DEFAULT_MAX_PAGES_PER_DOC
      in if excerpts \<noteq> []
         then (case llm f excerpts ro (client st) of
                 (r, s') \<Rightarrow>
                   (let st' = st\<lparr>client := s', llm_calls := llm_calls st @ [(f, excerpts)]\<rparr>
                    in case r of
                         Inr llm_candidates \<Rightarrow>
                           (check_llm f llm_candidates field_candidates, None, None, st')
                       | Inl (LLMInvalidJSONError k m) \<Rightarrow>
                           (field_candidates,
                            Some (''LLMInvalidJSONError'', exn_str (LLMInvalidJSONError k m)),
                            None, st')
                       | Inl e \<Rightarrow> (field_candidates, None, Some e, st')))
         else (field_candidates, None, None, st))"

definition process_field ::
  "(string \<rightharpoonup> extractor) \<Rightarrow> 's llm_client \<Rightarrow> run_options \<Rightarrow> layout_doc list
     \<Rightarrow> routing_entry list \<Rightarrow> field_spec \<Rightarrow> 's run_state \<Rightarrow> 's run_state \<times> exn option" where
  "process_field extractors llm ro layout routing f st =
     (let routed_docs = get_routed_docs (key f) routing layout
      in if routed_docs = []
         then (st\<lparr>field_stats := (field_stats st)(key f \<mapsto>
                     \<lparr>heuristic_count = 0, llm_used = False, accepted_count = 0,
                      rejected_count = 0\<rparr>)\<rparr>, None)
         else
           (let heuristic_candidates = heuristic_candidates_for_field extractors f routed_docs
            in case check_heuristic f heuristic_candidates [] [] of
                 (accepted_heuristic, field_candidates) \<Rightarrow>
                   (let st1 = st\<lparr>trace := trace st @ [heuristic_event f]\<rparr>
                    in case (if should_call_llm accepted_heuristic
                             then (case llm_pass llm ro f routed_docs field_candidates st1 of
                                     (fc, llm_error, raised, st2) \<Rightarrow>
                                       (case raised of
                                          Some e \<Rightarrow> (fc, True, Some e, st2)
                                        | None \<Rightarrow>
                                            (fc, True, None,
                                             st2\<lparr>trace := trace st2 @ [llm_event f llm_error]\<rparr>)))
                             else (field_candidates, False, None, st1)) of
                         (fc, used, raised, st3) \<Rightarrow>
                           (case raised of
                              Some e \<Rightarrow> (st3, Some e)
                            | None \<Rightarrow>
                                (st3\<lparr>field_stats := (field_stats st3)(key f \<mapsto>
                                        \<lparr>heuristic_count = length heuristic_candidates,
                                         llm_used = used,
                                         accepted_count =
                                           length (filter (\<lambda>c. rejected_reasons c = []) fc),
                                         rejected_count =
                                           length (filter (\<lambda>c. rejected_reasons c \<noteq> []) fc)\<rparr>),
                                      all_candidates := all_candidates st3 @ fc\<rparr>, None)))))"




section \<open>Sample data\<close>

definition sample_scores :: candidate_scores where
  "sample_scores =
     \<lparr>anchor_match = 1, validator = 0, doc_relevance = 0, cross_doc_agreement = 0,
      contradiction_penalty = 0\<rparr>"

definition sample_evidence :: evidence where
  "sample_evidence = \<lparr>ev_doc_id = ''d1'', ev_page = 1, quoted_text = ''Phone: 555-123-4567''\<rparr>"






definition sample_field_phone :: field_spec where
  "sample_field_phone = \<lparr>key = ''phone'', label = None, type = Phone\<rparr>"


definition sample_layout :: "layout_doc list" where
  "sample_layout =
     [\<lparr>doc_id = ''d1'', pages = [\<lparr>page = 1, full_text = ''Phone: 555-123-4567''\<rparr>]\<rparr>]"

definition sample_routing :: "routing_entry list" where
  "sample_routing =
     [\<lparr>rt_field = ''phone'', rt_doc_ids = [''d1'']\<rparr>,
      \<lparr>rt_field = ''dob'', rt_doc_ids = [''d1'']\<rparr>]"

definition cand_phone_h :: candidate where
  "cand_phone_h =
     \<lparr>field = ''phone'', raw_value = ''555-123-4567'', normalized_value = ''15551234567'',
      evidence = [sample_evidence], from_method = Heuristic,
      validators = [''default_country_assumed''], rejected_reasons = [],
      scores = sample_scores\<rparr>"

definition sample_extractors :: "string \<rightharpoonup> extractor" where
  "sample_extractors = [''phone'' \<mapsto> (\<lambda>f doc. [cand_phone_h]), ''dob'' \<mapsto> (\<lambda>f doc. [])]"

text \<open>
  A client that counts its calls, returns one candidate with invented evidence for the
  field \<open>phone\<close> and fails on any other field.
\<close>

definition cand_phone_fabricated :: candidate where
  "cand_phone_fabricated =
     \<lparr>field = ''phone'', raw_value = ''999-999-9999'', normalized_value = ''19999999999'',
      evidence = [sample_evidence], from_method = Llm, validators = [],
      rejected_reasons = [], scores = sample_scores\<rparr>"

definition sample_llm :: "nat llm_client" where
  "sample_llm f excerpts ro n =
     (if key f = ''phone'' then (Inr [cand_phone_fabricated], Suc n)
      else (Inl (LLMInvalidJSONError (key f) ''Invalid JSON''), Suc n))"

definition sample_options :: run_options where
  "sample_options = \<lparr>max_llm_tokens = 1200, max_fields = 7\<rparr>"

definition sample_state :: "nat run_state" where
  "sample_state =
     \<lparr>client = 0, trace = [], all_candidates = [], field_stats = Map.empty, llm_calls = []\<rparr>"




section \<open>Notions used by the statements\<close>

text \<open>A candidate as the evidence check leaves it: marked when unsupported.\<close>

definition checked :: "field_spec \<Rightarrow> candidate \<Rightarrow> candidate" where
  "checked f c = (if evidence_supports_value f c then c else mark_unsupported c)"




text \<open>
  The date rule in the words of the specification. A value parses as a date when it
  begins with four digits, a hyphen, two digits, a hyphen and two digits; these are the
  year, the month and the day. A two-digit component without zero padding has its
  leading zero dropped. A text contains a date written with three components when they
  occur in it in a row, each two separated by a hyphen or a slash.
\<close>

definition spec_parses_as_date :: "string \<Rightarrow> bool" where
  "spec_parses_as_date nv =
     (10 \<le> length nv
      \<and> list_all re_digit (take 4 nv) \<and> nv ! 4 = CHR ''-''
      \<and> list_all re_digit (take 2 (drop 5 nv)) \<and> nv ! 7 = CHR ''-''
      \<and> list_all re_digit (take 2 (drop 8 nv)))"

definition spec_unpadded :: "string \<Rightarrow> string" where
  "spec_unpadded s = (if length s = 2 \<and> hd s = CHR ''0'' then tl s else s)"

definition spec_written :: "string \<Rightarrow> string \<Rightarrow> string \<Rightarrow> string \<Rightarrow> bool" where
  "spec_written a b c text =
     list_ex (\<lambda>s1. list_ex (\<lambda>s2. sublist (a @ [s1] @ b @ [s2] @ c) text) ''-/'') ''-/''"

definition spec_month_named :: "string \<Rightarrow> string \<Rightarrow> bool" where
  "spec_month_named m text = list_ex (\<lambda>name. sublist name (py_lower text)) (month_names m)"

definition spec_date_supported :: "string \<Rightarrow> string list \<Rightarrow> bool" where
  "spec_date_supported nv evidence_texts =
     (spec_parses_as_date nv
      \<and> (let y = take 4 nv; m = take 2 (drop 5 nv); d = take 2 (drop 8 nv)
         in list_ex
              (\<lambda>text.
                 spec_written y m d text
                 \<or> spec_written y (spec_unpadded m) (spec_unpadded d) text
                 \<or> spec_written m d y text
                 \<or> spec_written (spec_unpadded m) (spec_unpadded d) y text
                 \<or> (sublist y text \<and> sublist (lstrip_zeros d) text \<and> spec_month_named m text))
              evidence_texts))"

(*THEOREMS*)

section \<open>The loops of the orchestrator in closed form\<close>

lemma check_heuristic_eq:
  "check_heuristic f cs acc fc =
     (acc @ filter (evidence_supports_value f) cs, fc @ map (checked f) cs)"
  by (induction cs arbitrary: acc fc) (auto simp: checked_def)


lemma py_max_eq: "py_max x xs = Max (set (x # xs))"
proof (induction xs arbitrary: x)
  case Nil
  then show ?case by (simp add: py_max_def)
next
  case (Cons y ys)
  have "py_max x (y # ys) = py_max (if y > x then y else x) ys"
    by (simp add: py_max_def)
  also have "\<dots> = Max (set ((if y > x then y else x) # ys))"
    by (rule Cons.IH)
  also have "\<dots> = Max (set (x # y # ys))"
    by (cases ys) (auto simp: max_def)
  finally show ?case .
qed

lemma should_call_llm_iff:
  "should_call_llm accepted \<longleftrightarrow>
     (accepted = [] \<or> Max ((\<lambda>c. 0.45 * anchor_match (scores c)) ` set accepted) < 0.75)"
proof (cases accepted)
  case Nil
  then show ?thesis by (simp add: should_call_llm_def)
next
  case (Cons c cs)
  have "py_max (compute_provisional_confidence c) (map compute_provisional_confidence cs)
          = Max ((\<lambda>c. 0.45 * anchor_match (scores c)) ` set (c # cs))"
    unfolding py_max_eq by (simp add: compute_provisional_confidence_def[abs_def])
  with Cons show ?thesis
    by (simp add: should_call_llm_def AUTOFILL_THRESHOLD_def Let_def)
qed



lemma process_field_llm:
  assumes "get_routed_docs (key f) routing layout = routed" "routed \<noteq> []"
    and "heuristic_candidates_for_field extractors f routed = hs"
    and "should_call_llm (filter (evidence_supports_value f) hs)"
    and "llm_pass llm ro f routed (map (checked f) hs)
           (st\<lparr>trace := trace st @ [heuristic_event f]\<rparr>)
         = (fc, llm_error, raised, st2)"
  shows "process_field extractors llm ro layout routing f st =
     (case raised of
        Some e \<Rightarrow> (st2, Some e)
      | None \<Rightarrow>
         (st2\<lparr>trace := trace st2 @ [llm_event f llm_error],
          field_stats := (field_stats st2)(key f \<mapsto>
           \<lparr>heuristic_count = length hs, llm_used = True,
            accepted_count = length (filter (\<lambda>c. rejected_reasons c = []) fc),
            rejected_count = length (filter (\<lambda>c. rejected_reasons c \<noteq> []) fc)\<rparr>),
          all_candidates := all_candidates st2 @ fc\<rparr>, None))"
  using assms by (simp add: process_field_def check_heuristic_eq Let_def split: option.splits)


section \<open>The normalizer\<close>

text \<open>
  C2. \<open>normalize_text\<close> is a total function, yet it is not idempotent. Whitespace is
  collapsed before punctuation is removed, so a punctuation mark standing between two
  spaces leaves two adjacent spaces behind: \<open>"a . b"\<close> goes to \<open>"a  b"\<close>, which a
  second application changes to \<open>"a b"\<close>.
\<close>

theorem normalize_text_twice_differs:
  "normalize_text ''a . b'' = ''a  b''
   \<and> normalize_text (normalize_text ''a . b'') = ''a b''
   \<and> normalize_text (normalize_text ''a . b'') \<noteq> normalize_text ''a . b''"
  by code_simp

section \<open>The deterministic sort\<close>






section \<open>The escalation decision\<close>

lemma llm_pass_keeps:
  "llm_pass llm ro f routed fc st = (fc', err, raised, st') \<Longrightarrow>
   trace st' = trace st \<and> field_stats st' = field_stats st \<and> all_candidates st' = all_candidates st"
  by (auto simp: llm_pass_def Let_def split: if_splits prod.splits sum.splits exn.splits)


lemma process_field_escalated:
  assumes "get_routed_docs (key f) routing layout \<noteq> []"
    and s: "should_call_llm (filter (evidence_supports_value f)
           (heuristic_candidates_for_field extractors f (get_routed_docs (key f) routing layout)))"
    and p: "process_field extractors llm ro layout routing f st = (st', None)"
  shows "map_option llm_used (field_stats st' (key f)) = Some True
          \<and> (\<exists>llm_error. trace st' = trace st @ [heuristic_event f, llm_event f llm_error])"
proof -
  obtain fc llm_error r st2 where
    lp: "llm_pass llm ro f (get_routed_docs (key f) routing layout)
           (map (checked f) (heuristic_candidates_for_field extractors f
              (get_routed_docs (key f) routing layout)))
           (st\<lparr>trace := trace st @ [heuristic_event f]\<rparr>) = (fc, llm_error, r, st2)"
    by (metis prod_cases4)
  from process_field_llm [OF refl assms(1) refl s lp] p
  have r: "r = None" and st': "st' = st2\<lparr>trace := trace st2 @ [llm_event f llm_error],
        field_stats := (field_stats st2)(key f \<mapsto>
         \<lparr>heuristic_count = length (heuristic_candidates_for_field extractors f
              (get_routed_docs (key f) routing layout)), llm_used = True,
          accepted_count = length (filter (\<lambda>c. rejected_reasons c = []) fc),
          rejected_count = length (filter (\<lambda>c. rejected_reasons c \<noteq> []) fc)\<rparr>),
        all_candidates := all_candidates st2 @ fc\<rparr>"
    by (auto split: option.splits)
  from llm_pass_keeps [OF lp] have "trace st2 = trace st @ [heuristic_event f]" by simp
  with st' show ?thesis
    by auto
qed


lemma sample_phone_routed:
  "get_routed_docs (key sample_field_phone) sample_routing sample_layout \<noteq> []"
  by code_simp


lemma sample_phone_no_exn:
  "snd (process_field sample_extractors sample_llm sample_options sample_layout sample_routing
          sample_field_phone sample_state) = None"
  by code_simp


text \<open>
  C4. When the anchor scores of the heuristic candidates lie in \<open>[0, 1]\<close>, as the
  validator of \<open>CandidateScores\<close> demands, the provisional confidence is at most 0.45,
  below the threshold 0.75: for every field with a routed document \<open>should_call_llm\<close>
  is true, and a field that completes is recorded with \<open>llm_used = True\<close>.
\<close>

theorem generator_always_attempted:
  assumes "get_routed_docs (key f) routing layout \<noteq> []"
    and "\<forall>c \<in> set (heuristic_candidates_for_field extractors f
                     (get_routed_docs (key f) routing layout)).
           0 \<le> anchor_match (scores c) \<and> anchor_match (scores c) \<le> 1"
    and "process_field extractors llm ro layout routing f st = (st', raised)"
  shows "should_call_llm (filter (evidence_supports_value f)
           (heuristic_candidates_for_field extractors f (get_routed_docs (key f) routing layout)))
    \<and> (raised = None \<longrightarrow> map_option llm_used (field_stats st' (key f)) = Some True)"
proof -
  let ?acc = "filter (evidence_supports_value f)
           (heuristic_candidates_for_field extractors f (get_routed_docs (key f) routing layout))"
  have s: "should_call_llm ?acc"
  proof (cases "?acc = []")
    case True
    then show ?thesis by (simp add: should_call_llm_iff)
  next
    case False
    have "\<forall>c \<in> set ?acc. 0.45 * anchor_match (scores c) < 0.75"
    proof
      fix c assume "c \<in> set ?acc"
      with assms(2) have "anchor_match (scores c) \<le> 1" by auto
      then show "0.45 * anchor_match (scores c) < 0.75" by simp
    qed
    moreover from False have "set ?acc \<noteq> {}"
      by (simp only: set_empty) simp
    ultimately have "Max ((\<lambda>c. 0.45 * anchor_match (scores c)) ` set ?acc) < 0.75"
      by (subst Max_less_iff) (simp_all only: finite_imageI finite_set image_is_empty ball_simps, blast+)
    then show ?thesis by (simp add: should_call_llm_iff)
  qed
  from s process_field_escalated [OF assms(1) s, of llm ro st st'] assms(3)
  show ?thesis by blast
qed

lemma sample_phone_scores:
  "\<forall>c \<in> set (heuristic_candidates_for_field sample_extractors sample_field_phone
                     (get_routed_docs (key sample_field_phone) sample_routing sample_layout)).
           0 \<le> anchor_match (scores c) \<and> anchor_match (scores c) \<le> 1"
  by code_simp

theorem generator_always_attempted_witness:
  "get_routed_docs (key sample_field_phone) sample_routing sample_layout \<noteq> []
   \<and> should_call_llm (filter (evidence_supports_value sample_field_phone)
           (heuristic_candidates_for_field sample_extractors sample_field_phone
              (get_routed_docs (key sample_field_phone) sample_routing sample_layout)))
   \<and> map_option llm_used
        (field_stats (fst (process_field sample_extractors sample_llm sample_options
           sample_layout sample_routing sample_field_phone sample_state)) ''phone'') = Some True"
proof -
  have k: "key sample_field_phone = ''phone''"
    by (simp add: sample_field_phone_def)
  from generator_always_attempted [OF sample_phone_routed sample_phone_scores surjective_pairing,
         of sample_llm sample_options sample_state]
       sample_phone_routed sample_phone_no_exn k
  show ?thesis by simp
qed

section \<open>The generator client\<close>









section \<open>Candidates collected by a run\<close>

lemma checked_evidence [simp]: "evidence (checked f c) = evidence c"
  by (simp add: checked_def mark_unsupported_def)






section \<open>Construction-time invariants\<close>






lemma set_sort_candidates [simp]: "set (sort_candidates cs) = set cs"
  by (simp add: sort_candidates_def)









section \<open>The evidence check decides acceptance\<close>

lemma evidence_supports_value_from_method [simp]:
  "evidence_supports_value f (c\<lparr>from_method := m\<rparr>) = evidence_supports_value f c"
  by (simp add: evidence_supports_value_def split: option.splits field_type.splits)

lemma evidence_supports_value_rejected [simp]:
  "evidence_supports_value f (c\<lparr>rejected_reasons := rs\<rparr>) = evidence_supports_value f c"
  by (simp add: evidence_supports_value_def split: option.splits field_type.splits)

lemma evidence_supports_value_checked [simp]:
  "evidence_supports_value f (checked f c) = evidence_supports_value f c"
  by (simp add: checked_def mark_unsupported_def)











section \<open>Generator failures are caught per field\<close>














end
